theory Spec2Isabelle
  imports Main "HOL-Library.Word" "HOL-Library.Sublist"
begin

section \<open>JavaScript strings and numbers\<close>

text \<open>
  A JavaScript string is a sequence of UTF-16 code units. The literals of the source are
  all ASCII, so \<open>lit\<close> maps each character of an Isabelle literal to its code unit.
\<close>

type_synonym code_unit = "16 word"
type_synonym jsstring = "code_unit list"

definition lit :: "string \<Rightarrow> jsstring" where
  "lit s = map of_char s"

text \<open>
  \<^verbatim>\<open>String.prototype.trim\<close> strips the ECMAScript WhiteSpace and LineTerminator code
  points from both ends: TAB, LF, VT, FF, CR, SP, NBSP, U+1680, U+2000 to U+200A, U+2028,
  U+2029, U+202F, U+205F, U+3000 and U+FEFF.
\<close>

definition isWhiteSpace :: "code_unit \<Rightarrow> bool" where
  "isWhiteSpace c \<longleftrightarrow>
     c \<in> {0x0009, 0x000A, 0x000B, 0x000C, 0x000D, 0x0020, 0x00A0, 0x1680,
          0x2028, 0x2029, 0x202F, 0x205F, 0x3000, 0xFEFF}
     \<or> (0x2000 \<le> c \<and> c \<le> 0x200A)"

definition trim :: "jsstring \<Rightarrow> jsstring" where
  "trim s = rev (dropWhile isWhiteSpace (rev (dropWhile isWhiteSpace s)))"

text \<open>
  \<^verbatim>\<open>Date.now()\<close> is an integral number of milliseconds, far below \<open>10^21\<close> in
  absolute value, so \<^verbatim>\<open>toString()\<close> renders it in plain decimal, with a leading
  minus sign for a reading before the epoch.
\<close>

definition digit :: "nat \<Rightarrow> code_unit" where
  "digit d = 0x30 + of_nat d"

fun digits :: "nat \<Rightarrow> jsstring" where
  "digits n = (if n < 10 then [digit n] else digits (n div 10) @ [digit (n mod 10)])"

declare digits.simps [simp del]

definition Number_toString :: "int \<Rightarrow> jsstring" where
  "Number_toString i = (if i < 0 then 0x2D # digits (nat (- i)) else digits (nat i))"

text \<open>
  \<^verbatim>\<open>a || b\<close> on an optional string: the left operand when it is truthy, that is present
  and not the empty string, else the right operand.
\<close>

definition or_else :: "jsstring option \<Rightarrow> jsstring \<Rightarrow> jsstring" where
  "or_else a b = (case a of None \<Rightarrow> b | Some x \<Rightarrow> if x = [] then b else x)"

section \<open>The API utilities\<close>

text \<open>
  \<^verbatim>\<open>interface ChatResponse { response: string; timestamp?: string }\<close>. The body comes
  from the network, and the caller guards against a missing \<^verbatim>\<open>response\<close>, so both
  fields are optional here.
\<close>

record ChatResponse =
  resp_response :: "jsstring option"
  resp_timestamp :: "jsstring option"

text \<open>
  \<^verbatim>\<open>class APIError extends Error\<close> with its constructor arguments
  \<^verbatim>\<open>(message, statusCode, code?)\<close>. A status code is an integer.
\<close>

record APIError =
  err_message :: jsstring
  statusCode :: int
  code :: "jsstring option"

text \<open>
  What \<^verbatim>\<open>apiClient.post('/chat', { message })\<close> settles to: a response with its
  \<^verbatim>\<open>data\<close> (\<open>None\<close> when the body is \<^verbatim>\<open>null\<close>), an axios error with
  \<^verbatim>\<open>error.message\<close>, \<^verbatim>\<open>error.response?.status\<close> and \<^verbatim>\<open>error.code\<close>, or
  some other thrown value.
\<close>

datatype failure =
    AxiosError jsstring "int option" "jsstring option"
  | OtherError

datatype AxiosOutcome =
    Fulfilled "ChatResponse option"
  | Rejected failure

text \<open>
  What the code can throw: an \<^verbatim>\<open>APIError\<close>, or the \<^verbatim>\<open>TypeError\<close> of reading a
  property of \<^verbatim>\<open>null\<close>. An asynchronous function completes by returning a value or
  by throwing.
\<close>

datatype thrown = ThrownAPIError APIError | TypeError

datatype 'a completion = Returns 'a | Throws thrown

text \<open>
  The \<^verbatim>\<open>catch\<close> block of \<^verbatim>\<open>chatAPI.sendMessage\<close>:
  \<^verbatim>\<open>error.message || 'Network error'\<close> and \<^verbatim>\<open>error.response?.status || 0\<close>,
  where \<open>||\<close> on a number replaces \<open>0\<close> and an absent status by \<open>0\<close>.
\<close>

definition toAPIError :: "failure \<Rightarrow> APIError" where
  "toAPIError f =
     (case f of
        AxiosError m st c \<Rightarrow>
          \<lparr> err_message = or_else (Some m) (lit ''Network error''),
            statusCode = (case st of None \<Rightarrow> 0 | Some n \<Rightarrow> if n = 0 then 0 else n),
            code = c \<rparr>
      | OtherError \<Rightarrow>
          \<lparr> err_message = lit ''Unknown error occurred'', statusCode = 0, code = None \<rparr>)"

definition sendMessage ::
    "jsstring \<Rightarrow> AxiosOutcome \<Rightarrow> (ChatResponse option) completion" where
  "sendMessage message_arg out =
     (case out of
        Fulfilled data \<Rightarrow> Returns data
      | Rejected f \<Rightarrow> Throws (ThrownAPIError (toAPIError f)))"

definition isTimeoutError :: "APIError \<Rightarrow> bool" where
  "isTimeoutError e \<longleftrightarrow> code e = Some (lit ''ECONNABORTED'')"

text \<open>\<^verbatim>\<open>!n\<close> on an integral number holds for \<open>0\<close> only.\<close>

definition falsy_number :: "int \<Rightarrow> bool" where
  "falsy_number n \<longleftrightarrow> n = 0"

definition isNetworkError :: "APIError \<Rightarrow> bool" where
  "isNetworkError e \<longleftrightarrow> statusCode e = 0 \<or> falsy_number (statusCode e)"

definition isServerError :: "APIError \<Rightarrow> bool" where
  "isServerError e \<longleftrightarrow> statusCode e \<ge> 500"

definition isClientError :: "APIError \<Rightarrow> bool" where
  "isClientError e \<longleftrightarrow> statusCode e \<ge> 400 \<and> statusCode e < 500"

definition getUserMessage :: "APIError \<Rightarrow> jsstring" where
  "getUserMessage e =
     (if isTimeoutError e then lit ''Timeout della richiesta. Riprova.''
      else if isNetworkError e then lit ''Impossibile connettersi al server.''
      else if isServerError e then lit ''Errore interno del server.''
      else if isClientError e then lit ''Richiesta non valida.''
      else lit ''Errore nel contatto con TAUROS.'')"

section \<open>The error classifier as the specification words it\<close>

text \<open>
  The specification names five kinds and five rules in priority order, over a timeout flag
  and a status code, where \<open>0\<close> stands for no status code. \<open>classify\<close> follows those
  words; \<open>kind_message\<close> pairs each kind with the message the source returns for it.
\<close>

datatype ErrorKind = Timeout | NetworkUnreachable | ServerFault | InvalidRequest | Unknown

definition classify :: "bool \<Rightarrow> int \<Rightarrow> ErrorKind" where
  "classify timeout_flag status =
     (if timeout_flag then Timeout
      else if status = 0 then NetworkUnreachable
      else if status \<ge> 500 then ServerFault
      else if 400 \<le> status \<and> status < 500 then InvalidRequest
      else Unknown)"

fun kind_message :: "ErrorKind \<Rightarrow> jsstring" where
  "kind_message Timeout = lit ''Timeout della richiesta. Riprova.''"
| "kind_message NetworkUnreachable = lit ''Impossibile connettersi al server.''"
| "kind_message ServerFault = lit ''Errore interno del server.''"
| "kind_message InvalidRequest = lit ''Richiesta non valida.''"
| "kind_message Unknown = lit ''Errore nel contatto con TAUROS.''"

section \<open>The chat screen\<close>

text \<open>\<^verbatim>\<open>interface ChatMessage { id; message; response; timestamp }\<close>, the timestamp in
  milliseconds since the epoch.\<close>

record ChatMessage =
  cm_id :: jsstring
  cm_message :: jsstring
  cm_response :: jsstring
  cm_timestamp :: int

text \<open>
  The four \<^verbatim>\<open>useState\<close> cells of \<^verbatim>\<open>ChatScreen\<close>, and what the screen has done to
  its surroundings: the \<^verbatim>\<open>Alert.alert(title, text)\<close> calls in order, the errors
  passed to \<^verbatim>\<open>console.error\<close>, and the requests posted and not yet settled, each
  with the \<^verbatim>\<open>messageToSend\<close> its suspended \<^verbatim>\<open>handleSend\<close> holds.
\<close>

record ChatScreen =
  message :: jsstring
  currentResponse :: jsstring
  isLoading :: bool
  chatHistory :: "ChatMessage list"
  alerts :: "(jsstring \<times> jsstring) list"
  consoleErrors :: "thrown list"
  inFlight :: "jsstring list"

definition initial :: ChatScreen where
  "initial = \<lparr> message = [], currentResponse = [], isLoading = False, chatHistory = [],
               alerts = [], consoleErrors = [], inFlight = [] \<rparr>"

definition placeholder :: jsstring where
  "placeholder = lit ''Risposta non disponibile''"

definition validation_notice :: "jsstring \<times> jsstring" where
  "validation_notice = (lit ''Attenzione'', lit ''Inserisci un messaggio prima di inviare.'')"

text \<open>\<^verbatim>\<open>handleSend\<close> up to its \<^verbatim>\<open>await\<close>: the validation, then the input is cleared,
  the loading flag is raised and the request is posted.\<close>

definition handleSend :: "ChatScreen \<Rightarrow> ChatScreen" where
  "handleSend s =
     (if trim (message s) = [] then s\<lparr> alerts := alerts s @ [validation_notice] \<rparr>
      else s\<lparr> message := [], isLoading := True,
              inFlight := inFlight s @ [trim (message s)] \<rparr>)"

text \<open>
  \<^verbatim>\<open>handleSend\<close> from its \<^verbatim>\<open>await\<close> on, for the request that carried
  \<open>messageToSend\<close>. \<open>handleSend_catch\<close> is the \<^verbatim>\<open>catch\<close> block followed by
  \<^verbatim>\<open>finally\<close>: the default message stands unless the error is an \<^verbatim>\<open>APIError\<close>.
  \<open>handleSend_resume\<close> is the \<^verbatim>\<open>try\<close> body followed by \<^verbatim>\<open>finally\<close>, and
  hands over to \<open>handleSend_catch\<close> when \<^verbatim>\<open>sendMessage\<close> throws or when
  \<^verbatim>\<open>response.response\<close> is read off a \<^verbatim>\<open>null\<close> body. \<open>now_id\<close> is the
  reading of \<^verbatim>\<open>Date.now()\<close> and \<open>now_ts\<close> the one of \<^verbatim>\<open>new Date()\<close>.
\<close>

definition handleSend_catch :: "thrown \<Rightarrow> ChatScreen \<Rightarrow> ChatScreen" where
  "handleSend_catch error s =
     (let errorMessage = (case error of
                            ThrownAPIError e \<Rightarrow> getUserMessage e
                          | TypeError \<Rightarrow> lit ''Errore nel contatto con TAUROS.'')
      in s\<lparr> consoleErrors := consoleErrors s @ [error],
             currentResponse := errorMessage,
             alerts := alerts s @ [(lit ''Errore'', errorMessage)],
             isLoading := False \<rparr>)"

definition handleSend_resume ::
    "jsstring \<Rightarrow> AxiosOutcome \<Rightarrow> int \<Rightarrow> int \<Rightarrow> ChatScreen \<Rightarrow> ChatScreen" where
  "handleSend_resume messageToSend out now_id now_ts s =
     (case sendMessage messageToSend out of
        Returns None \<Rightarrow> handleSend_catch TypeError s
      | Returns (Some response) \<Rightarrow>
          (let responseText = or_else (resp_response response) placeholder;
               newMessage = \<lparr> cm_id = Number_toString now_id, cm_message = messageToSend,
                              cm_response = responseText, cm_timestamp = now_ts \<rparr>
           in s\<lparr> currentResponse := responseText,
                  chatHistory := chatHistory s @ [newMessage],
                  isLoading := False \<rparr>)
      | Throws error \<Rightarrow> handleSend_catch error s)"

text \<open>
  What can happen to the screen. The text input is \<^verbatim>\<open>editable={!isLoading}\<close> and the
  send button is \<^verbatim>\<open>disabled={isLoading}\<close>, so a change of text or a press reaches its
  handler only when the flag is down. \<open>Resolve i out now_id now_ts\<close> settles the
  \<open>i\<close>-th request in flight with \<open>out\<close>, at the two clock readings. The input's
  \<^verbatim>\<open>maxLength\<close> only narrows the texts that arrive; every text is admitted here.
\<close>

datatype event =
    ChangeText jsstring
  | PressSend
  | Resolve nat AxiosOutcome int int

definition remove_nth :: "nat \<Rightarrow> 'a list \<Rightarrow> 'a list" where
  "remove_nth i xs = take i xs @ drop (Suc i) xs"

fun step :: "ChatScreen \<Rightarrow> event \<Rightarrow> ChatScreen" where
  "step s (ChangeText t) = (if isLoading s then s else s\<lparr> message := t \<rparr>)"
| "step s PressSend = (if isLoading s then s else handleSend s)"
| "step s (Resolve i out now_id now_ts) =
     (if i < length (inFlight s)
      then handleSend_resume (inFlight s ! i) out now_id now_ts
             (s\<lparr> inFlight := remove_nth i (inFlight s) \<rparr>)
      else s)"

definition run :: "ChatScreen \<Rightarrow> event list \<Rightarrow> ChatScreen" where
  "run s es = foldl step s es"

section \<open>Runs of the screen\<close>

text \<open>A press of the send button, then the settling of the request that the press posted.\<close>

definition submit_and_settle ::
    "ChatScreen \<Rightarrow> AxiosOutcome \<Rightarrow> int \<Rightarrow> int \<Rightarrow> ChatScreen" where
  "submit_and_settle s out now_id now_ts =
     step (step s PressSend) (Resolve (length (inFlight s)) out now_id now_ts)"

text \<open>
  A successful send: the user types \<open>text\<close>, presses send, and the request is fulfilled
  with \<open>body\<close> at the clock readings \<open>now_id\<close> and \<open>now_ts\<close>. \<open>exchange_of\<close> is the
  entry such a send is expected to leave in the history.
\<close>

type_synonym send = "jsstring \<times> ChatResponse \<times> int \<times> int"

fun successful_send :: "ChatScreen \<Rightarrow> send \<Rightarrow> ChatScreen" where
  "successful_send s (text, body, now_id, now_ts) =
     submit_and_settle (step s (ChangeText text)) (Fulfilled (Some body)) now_id now_ts"

definition successful_sends :: "ChatScreen \<Rightarrow> send list \<Rightarrow> ChatScreen" where
  "successful_sends s xs = foldl successful_send s xs"

fun send_text :: "send \<Rightarrow> jsstring" where
  "send_text (text, body, now_id, now_ts) = text"

fun send_now_id :: "send \<Rightarrow> int" where
  "send_now_id (text, body, now_id, now_ts) = now_id"

fun send_now_ts :: "send \<Rightarrow> int" where
  "send_now_ts (text, body, now_id, now_ts) = now_ts"

fun exchange_of :: "send \<Rightarrow> ChatMessage" where
  "exchange_of (text, body, now_id, now_ts) =
     \<lparr> cm_id = Number_toString now_id, cm_message = trim text,
       cm_response = or_else (resp_response body) placeholder, cm_timestamp = now_ts \<rparr>"

text \<open>
  The reply as the specification words it: the reply field of the body, or the placeholder
  if that field is absent.
\<close>

definition reply_as_specified :: "ChatResponse \<Rightarrow> jsstring" where
  "reply_as_specified body = (case resp_response body of None \<Rightarrow> placeholder | Some r \<Rightarrow> r)"

text \<open>Concrete screens and outcomes for the examples below.\<close>

definition typed :: "string \<Rightarrow> ChatScreen" where
  "typed t = step initial (ChangeText (lit t))"

definition reply :: "string \<Rightarrow> ChatResponse" where
  "reply t = \<lparr> resp_response = Some (lit t), resp_timestamp = None \<rparr>"

definition timed_out :: failure where
  "timed_out = AxiosError (lit ''timeout of 30000ms exceeded'') None (Some (lit ''ECONNABORTED''))"

definition two_sends :: "int \<Rightarrow> int \<Rightarrow> int \<Rightarrow> int \<Rightarrow> send list" where
  "two_sends id1 ts1 id2 ts2 =
     [(lit ''a'', reply ''x'', id1, ts1), (lit ''b'', reply ''y'', id2, ts2)]"

section \<open>The superseded screen\<close>

text \<open>
  The root-level \<^verbatim>\<open>ChatScreen.tsx\<close> is the screen from before the refactoring;
  \<^verbatim>\<open>App.tsx\<close> loads \<^verbatim>\<open>./src/screens/ChatScreen\<close> and never this one. Its
  \<^verbatim>\<open>handleSend\<close> posts the message as it stands, with no check, keeps no history,
  and shows one fixed text for every failure.
\<close>

record LegacyScreen =
  legacy_message :: jsstring
  legacy_response :: "jsstring option"
  legacy_inFlight :: "jsstring list"

definition legacy_handleSend :: "LegacyScreen \<Rightarrow> LegacyScreen" where
  "legacy_handleSend s = s\<lparr> legacy_inFlight := legacy_inFlight s @ [legacy_message s] \<rparr>"

definition legacy_handleSend_resume :: "AxiosOutcome \<Rightarrow> LegacyScreen \<Rightarrow> LegacyScreen" where
  "legacy_handleSend_resume out s =
     (case out of
        Fulfilled (Some data) \<Rightarrow> s\<lparr> legacy_response := resp_response data \<rparr>
      | _ \<Rightarrow> s\<lparr> legacy_response := Some (lit ''Errore nel contatto con Tauros.'') \<rparr>)"

section \<open>The invariant of the screen\<close>

text \<open>
  The loading flag is up exactly while a request is in flight, there is never more than
  one, and the input is empty while the flag is up.
\<close>

definition invariant :: "ChatScreen \<Rightarrow> bool" where
  "invariant s \<longleftrightarrow>
     (isLoading s \<longleftrightarrow> inFlight s \<noteq> []) \<and> length (inFlight s) \<le> 1
     \<and> (isLoading s \<longrightarrow> message s = [])"

section \<open>Strings and numbers: basic facts\<close>

lemma trim_whitespace: "\<forall>c\<in>set t. isWhiteSpace c \<Longrightarrow> trim t = []"
  by (auto simp: trim_def dest: set_dropWhileD)

lemma trim_Nil_iff: "trim t = [] \<longleftrightarrow> (\<forall>c\<in>set t. isWhiteSpace c)"
proof
  assume "trim t = []"
  then have d: "\<forall>c\<in>set (dropWhile isWhiteSpace t). isWhiteSpace c"
    by (simp add: trim_def)
  have "set t = set (takeWhile isWhiteSpace t) \<union> set (dropWhile isWhiteSpace t)"
    by (metis set_append takeWhile_dropWhile_id)
  with d show "\<forall>c\<in>set t. isWhiteSpace c"
    by (auto dest: set_takeWhileD)
qed (rule trim_whitespace)

lemma digit_inj: "a < 10 \<Longrightarrow> b < 10 \<Longrightarrow> digit a = digit b \<longleftrightarrow> a = b"
  unfolding digit_def
  by (auto simp: word_of_nat_eq_iff take_bit_nat_eq_self)

lemma digit_not_minus: "a < 10 \<Longrightarrow> digit a \<noteq> 0x2D"
proof -
  assume "a < 10"
  then have "a \<in> {0,1,2,3,4,5,6,7,8,9}" by auto
  then show ?thesis unfolding digit_def by auto
qed

lemma digits_not_Nil: "digits n \<noteq> []"
  by (subst digits.simps) simp

lemma digits_inj: "digits n = digits m \<Longrightarrow> n = m"
proof (induction n arbitrary: m rule: digits.induct)
  case (1 n)
  show ?case
  proof (cases "n < 10")
    case True
    note n = this
    show ?thesis
    proof (cases "m < 10")
      case True
      with n "1.prems" show ?thesis
        by (simp add: digits.simps[of n] digits.simps[of m] digit_inj)
    next
      case False
      with n "1.prems" show ?thesis
        using digits_not_Nil[of "m div 10"]
        by (simp add: digits.simps[of n] digits.simps[of m])
    qed
  next
    case False
    note n = this
    show ?thesis
    proof (cases "m < 10")
      case True
      with n "1.prems" show ?thesis
        using digits_not_Nil[of "n div 10"]
        by (simp add: digits.simps[of n] digits.simps[of m])
    next
      case False
      with n "1.prems" have "digits (n div 10) = digits (m div 10)"
          and "digit (n mod 10) = digit (m mod 10)"
        by (simp_all add: digits.simps[of n] digits.simps[of m])
      then have "n div 10 = m div 10" and "n mod 10 = m mod 10"
        using "1.IH"[OF n] by (simp_all add: digit_inj)
      then show ?thesis
        by (metis div_mult_mod_eq)
    qed
  qed
qed

lemma minus_notin_digits: "0x2D \<notin> set (digits n)"
proof (induction n rule: digits.induct)
  case (1 n)
  show ?case
  proof (cases "n < 10")
    case True
    then show ?thesis
      using digit_not_minus[of n] by (simp add: digits.simps[of n])
  next
    case False
    then show ?thesis
      using "1.IH" digit_not_minus[of "n mod 10"] by (simp add: digits.simps[of n])
  qed
qed

lemma Number_toString_inj: "Number_toString i = Number_toString j \<longleftrightarrow> i = j"
proof
  assume eq: "Number_toString i = Number_toString j"
  have hdn: "\<And>n. hd (digits n) \<noteq> 0x2D"
    using minus_notin_digits digits_not_Nil by (metis hd_in_set)
  show "i = j"
  proof (cases "i < 0"; cases "j < 0")
    assume "i < 0" "j < 0"
    with eq have "digits (nat (- i)) = digits (nat (- j))"
      by (simp add: Number_toString_def)
    then have "nat (- i) = nat (- j)" by (rule digits_inj)
    with \<open>i < 0\<close> \<open>j < 0\<close> show ?thesis by simp
  next
    assume "i < 0" "\<not> j < 0"
    with eq have "0x2D # digits (nat (- i)) = digits (nat j)"
      by (simp add: Number_toString_def)
    then have "hd (digits (nat j)) = 0x2D" by (metis list.sel(1))
    with hdn show ?thesis by blast
  next
    assume "\<not> i < 0" "j < 0"
    with eq have "0x2D # digits (nat (- j)) = digits (nat i)"
      by (simp add: Number_toString_def)
    then have "hd (digits (nat i)) = 0x2D" by (metis list.sel(1))
    with hdn show ?thesis by blast
  next
    assume "\<not> i < 0" "\<not> j < 0"
    with eq have "digits (nat i) = digits (nat j)"
      by (simp add: Number_toString_def)
    then have "nat i = nat j" by (rule digits_inj)
    with \<open>\<not> i < 0\<close> \<open>\<not> j < 0\<close> show ?thesis by simp
  qed
qed simp

lemma lit_Nil: "lit [] = []"
  by (simp add: lit_def)

lemma lit_not_Nil: "t \<noteq> [] \<Longrightarrow> lit t \<noteq> []"
  by (simp add: lit_def)

lemma trim_Hello: "trim (lit ''Hello, how are you?'') = lit ''Hello, how are you?''"
  by (simp add: trim_def lit_def isWhiteSpace_def)

lemma trim_Test: "trim (lit ''Test'') = lit ''Test''"
  by (simp add: trim_def lit_def isWhiteSpace_def)

lemma trim_Hi: "trim (lit ''Hi'') = lit ''Hi''"
  by (simp add: trim_def lit_def isWhiteSpace_def)

lemma trim_a: "trim (lit ''a'') = lit ''a''"
  by (simp add: trim_def lit_def isWhiteSpace_def)

lemma trim_b: "trim (lit ''b'') = lit ''b''"
  by (simp add: trim_def lit_def isWhiteSpace_def)

lemma placeholder_not_empty: "placeholder \<noteq> []"
  by (simp add: placeholder_def lit_def)

section \<open>The two halves of a send\<close>

lemma remove_nth_last: "remove_nth (length xs) (xs @ [x]) = xs"
  by (simp add: remove_nth_def)

lemma handleSend_valid:
  "trim (message s) \<noteq> [] \<Longrightarrow>
   handleSend s = s\<lparr> message := [], isLoading := True,
                     inFlight := inFlight s @ [trim (message s)] \<rparr>"
  by (simp add: handleSend_def)

lemma settle_fulfilled:
  assumes "\<not> isLoading s" and "trim (message s) \<noteq> []"
  shows "submit_and_settle s (Fulfilled (Some body)) now_id now_ts =
    s\<lparr> message := [],
       currentResponse := or_else (resp_response body) placeholder,
       chatHistory := chatHistory s @
         [\<lparr> cm_id = Number_toString now_id, cm_message = trim (message s),
            cm_response = or_else (resp_response body) placeholder,
            cm_timestamp = now_ts \<rparr>] \<rparr>"
  using assms
  by (simp add: submit_and_settle_def handleSend_valid handleSend_resume_def sendMessage_def
      remove_nth_last Let_def)

lemma settle_rejected:
  assumes "\<not> isLoading s" and "trim (message s) \<noteq> []"
  shows "submit_and_settle s (Rejected f) now_id now_ts =
    s\<lparr> message := [],
       currentResponse := getUserMessage (toAPIError f),
       alerts := alerts s @ [(lit ''Errore'', getUserMessage (toAPIError f))],
       consoleErrors := consoleErrors s @ [ThrownAPIError (toAPIError f)] \<rparr>"
  using assms
  by (simp add: submit_and_settle_def handleSend_valid handleSend_resume_def handleSend_catch_def
      sendMessage_def remove_nth_last Let_def)

lemma settle_null_body:
  assumes "\<not> isLoading s" and "trim (message s) \<noteq> []"
  shows "submit_and_settle s (Fulfilled None) now_id now_ts =
    s\<lparr> message := [],
       currentResponse := lit ''Errore nel contatto con TAUROS.'',
       alerts := alerts s @ [(lit ''Errore'', lit ''Errore nel contatto con TAUROS.'')],
       consoleErrors := consoleErrors s @ [TypeError] \<rparr>"
  using assms
  by (simp add: submit_and_settle_def handleSend_valid handleSend_resume_def handleSend_catch_def
      sendMessage_def remove_nth_last Let_def)

lemma typed_message: "message (typed t) = lit t"
  by (simp add: typed_def initial_def)

lemma typed_idle: "\<not> isLoading (typed t)"
  by (simp add: typed_def initial_def)

lemma typed_fresh:
  "chatHistory (typed t) = []" "inFlight (typed t) = []" "alerts (typed t) = []"
  "currentResponse (typed t) = []"
  by (simp_all add: typed_def initial_def)

section \<open>Histories and the invariant\<close>

lemma prefix_history_step: "prefix (chatHistory s) (chatHistory (step s e))"
  by (cases e)
     (simp_all add: handleSend_def handleSend_resume_def handleSend_catch_def Let_def
        split: completion.splits option.splits)

lemma successful_send_idle:
  assumes "\<not> isLoading s" and "trim (send_text x) \<noteq> []"
  shows "successful_send s x =
    s\<lparr> message := [],
       currentResponse := cm_response (exchange_of x),
       chatHistory := chatHistory s @ [exchange_of x] \<rparr>"
proof -
  obtain t body now_id now_ts where x: "x = (t, body, now_id, now_ts)"
    by (cases x) auto
  let ?s = "step s (ChangeText t)"
  have "\<not> isLoading ?s" and "trim (message ?s) \<noteq> []"
    using assms x by simp_all
  then show ?thesis
    using assms(1) x by (simp add: settle_fulfilled)
qed

lemma history_of_successful_sends:
  assumes "\<not> isLoading s" and "\<forall>x\<in>set xs. trim (send_text x) \<noteq> []"
  shows "chatHistory (successful_sends s xs) = chatHistory s @ map exchange_of xs"
  using assms
proof (induction xs arbitrary: s)
  case Nil
  then show ?case by (simp add: successful_sends_def)
next
  case (Cons x xs)
  have step: "successful_send s x =
      s\<lparr> message := [], currentResponse := cm_response (exchange_of x),
         chatHistory := chatHistory s @ [exchange_of x] \<rparr>"
    using Cons.prems by (simp add: successful_send_idle)
  have "\<not> isLoading (successful_send s x)"
    using Cons.prems(1) by (simp add: step)
  moreover have "\<forall>y\<in>set xs. trim (send_text y) \<noteq> []"
    using Cons.prems(2) by simp
  ultimately have "chatHistory (successful_sends (successful_send s x) xs)
      = chatHistory (successful_send s x) @ map exchange_of xs"
    by (rule Cons.IH)
  then show ?case
    by (simp add: successful_sends_def step)
qed

lemma history_from_initial:
  "\<forall>x\<in>set xs. trim (send_text x) \<noteq> [] \<Longrightarrow>
   chatHistory (successful_sends initial xs) = map exchange_of xs"
  using history_of_successful_sends[of initial xs] by (simp add: initial_def)

lemma cm_timestamp_exchange: "cm_timestamp (exchange_of x) = send_now_ts x"
  by (cases x) simp

lemma cm_id_exchange: "cm_id (exchange_of x) = Number_toString (send_now_id x)"
  by (cases x) simp

lemma cm_message_exchange: "cm_message (exchange_of x) = trim (send_text x)"
  by (cases x) simp

lemma invariant_step: "invariant s \<Longrightarrow> invariant (step s e)"
proof (cases e)
  case (ChangeText t)
  assume "invariant s"
  with ChangeText show ?thesis by (simp add: invariant_def)
next
  case PressSend
  assume "invariant s"
  with PressSend show ?thesis
    by (auto simp: invariant_def handleSend_def)
next
  case (Resolve i out a b)
  assume "invariant s"
  with Resolve show ?thesis
    by (auto simp: invariant_def handleSend_resume_def handleSend_catch_def remove_nth_def
        Let_def split: completion.splits option.splits)
qed

lemma invariant_run: "invariant s \<Longrightarrow> invariant (run s es)"
  unfolding run_def by (induction es arbitrary: s) (simp_all add: invariant_step)

lemma invariant_initial: "invariant initial"
  by (simp add: invariant_def initial_def)

lemma trim_Nil: "trim [] = []"
  by (simp add: trim_def)

lemma handleSend_while_loading:
  assumes "invariant s" and "isLoading s"
  shows "handleSend s = s\<lparr> alerts := alerts s @ [validation_notice] \<rparr>"
  using assms by (simp add: invariant_def handleSend_def trim_Nil)

lemma Number_toString_1000: "Number_toString 1000 = lit ''1000''"
  by code_simp

lemma two_sends_valid: "\<forall>x\<in>set (two_sends id1 ts1 id2 ts2). trim (send_text x) \<noteq> []"
  by (simp add: two_sends_def trim_a trim_b lit_not_Nil)

lemma two_sends_history:
  "chatHistory (successful_sends initial (two_sends id1 ts1 id2 ts2)) =
     [\<lparr> cm_id = Number_toString id1, cm_message = lit ''a'', cm_response = lit ''x'',
         cm_timestamp = ts1 \<rparr>,
      \<lparr> cm_id = Number_toString id2, cm_message = lit ''b'', cm_response = lit ''y'',
         cm_timestamp = ts2 \<rparr>]"
  unfolding history_from_initial[OF two_sends_valid]
  by (simp add: two_sends_def trim_a trim_b reply_def or_else_def lit_not_Nil)

lemma timed_out_message:
  "getUserMessage (toAPIError timed_out) = lit ''Timeout della richiesta. Riprova.''"
  by (simp add: getUserMessage_def isTimeoutError_def toAPIError_def timed_out_def)

lemma legacy_posts_blank_text:
  "legacy_inFlight (legacy_handleSend s) = legacy_inFlight s @ [legacy_message s]"
  by (simp add: legacy_handleSend_def)

section \<open>Classification of failures\<close>

lemma kind_message_inj: "kind_message k = kind_message k' \<longleftrightarrow> k = k'"
  by (cases k; cases k') (simp_all add: lit_def)

text \<open>
  Claim C3. Every failed call is classified by the first matching rule, in the order
  timeout, no status code, status at least 500, status from 400 to 499, anything else:
  the message that \<open>getUserMessage\<close> returns for an error is the message of the kind that
  the priority rules give for its timeout flag and status code. The five messages differ,
  so the kind is unique, and \<open>classify\<close> is total, so no failure is left unclassified.
  A failure without a status code reaches the classifier with status \<open>0\<close>.
\<close>

theorem getUserMessage_classifies:
  "getUserMessage e = kind_message (classify (code e = Some (lit ''ECONNABORTED'')) (statusCode e))
   \<and> (kind_message k = getUserMessage e
        \<longleftrightarrow> k = classify (code e = Some (lit ''ECONNABORTED'')) (statusCode e))
   \<and> statusCode (toAPIError (AxiosError m None c)) = 0
   \<and> statusCode (toAPIError OtherError) = 0"
proof -
  have m: "getUserMessage e
             = kind_message (classify (code e = Some (lit ''ECONNABORTED'')) (statusCode e))"
    unfolding getUserMessage_def classify_def isTimeoutError_def isNetworkError_def
      isServerError_def isClientError_def falsy_number_def
    by simp
  show ?thesis
    unfolding m kind_message_inj by (simp add: toAPIError_def)
qed

theorem getUserMessage_classifies_witness:
  "getUserMessage (toAPIError (AxiosError (lit ''Request failed with status code 404'')
       (Some 404) (Some (lit ''ERR_BAD_REQUEST'')))) = lit ''Richiesta non valida.''
   \<and> getUserMessage (toAPIError (AxiosError (lit ''Request failed with status code 500'')
       (Some 500) (Some (lit ''ERR_BAD_RESPONSE'')))) = lit ''Errore interno del server.''
   \<and> getUserMessage (toAPIError (AxiosError (lit ''Network Error'') None
       (Some (lit ''ERR_NETWORK'')))) = lit ''Impossibile connettersi al server.''
   \<and> getUserMessage (toAPIError timed_out) = lit ''Timeout della richiesta. Riprova.''"
proof -
  have ne: "lit ''ERR_BAD_REQUEST'' \<noteq> lit ''ECONNABORTED''"
      "lit ''ERR_BAD_RESPONSE'' \<noteq> lit ''ECONNABORTED''"
      "lit ''ERR_NETWORK'' \<noteq> lit ''ECONNABORTED''"
    by (simp_all add: lit_def)
  show ?thesis
    using ne
      getUserMessage_classifies[of "toAPIError (AxiosError
        (lit ''Request failed with status code 404'') (Some 404) (Some (lit ''ERR_BAD_REQUEST'')))"]
      getUserMessage_classifies[of "toAPIError (AxiosError
        (lit ''Request failed with status code 500'') (Some 500) (Some (lit ''ERR_BAD_RESPONSE'')))"]
      getUserMessage_classifies[of "toAPIError (AxiosError
        (lit ''Network Error'') None (Some (lit ''ERR_NETWORK'')))"]
      getUserMessage_classifies[of "toAPIError timed_out"]
    by (simp add: toAPIError_def classify_def timed_out_def)
qed

section \<open>A successful send\<close>

text \<open>
  Claim C1 as it is worded fails on a reply field that is present and empty: the entry and
  the current response then hold the placeholder, not the field.
\<close>

theorem reply_field_counterexample:
  "cm_response (last (chatHistory (submit_and_settle (typed ''Hi'') (Fulfilled (Some (reply []))) 1000 1000)))
     \<noteq> reply_as_specified (reply [])
   \<and> currentResponse (submit_and_settle (typed ''Hi'') (Fulfilled (Some (reply []))) 1000 1000)
     \<noteq> reply_as_specified (reply [])"
proof -
  have "\<not> isLoading (typed ''Hi'')" and "trim (message (typed ''Hi'')) \<noteq> []"
    by (simp_all add: typed_idle typed_message trim_Hi lit_not_Nil)
  then have "submit_and_settle (typed ''Hi'') (Fulfilled (Some (reply []))) 1000 1000 =
      (typed ''Hi'')\<lparr> message := [], currentResponse := placeholder,
        chatHistory := [\<lparr> cm_id = Number_toString 1000, cm_message = lit ''Hi'',
                          cm_response = placeholder, cm_timestamp = 1000 \<rparr>] \<rparr>"
    by (simp add: settle_fulfilled typed_fresh typed_message trim_Hi reply_def or_else_def lit_Nil)
  moreover have "reply_as_specified (reply []) = []"
    by (simp add: reply_as_specified_def reply_def lit_Nil)
  ultimately show ?thesis
    by (simp add: placeholder_not_empty)
qed

text \<open>
  Claim C1, amended. When the send button is pressed on a text that passes validation and
  the request is fulfilled with a body, the history gains exactly one entry, at its end,
  whose message is the trimmed text and whose response is the reply field of the body, or
  the placeholder if that field is absent or the empty string; the current response is set
  to that same value.
\<close>

theorem send_success_appends:
  assumes "\<not> isLoading s" and "trim (message s) \<noteq> []"
  shows "chatHistory (submit_and_settle s (Fulfilled (Some body)) now_id now_ts) =
           chatHistory s @
           [\<lparr> cm_id = Number_toString now_id, cm_message = trim (message s),
              cm_response = (case resp_response body of None \<Rightarrow> placeholder
                             | Some r \<Rightarrow> if r = [] then placeholder else r),
              cm_timestamp = now_ts \<rparr>]
         \<and> currentResponse (submit_and_settle s (Fulfilled (Some body)) now_id now_ts) =
             (case resp_response body of None \<Rightarrow> placeholder
              | Some r \<Rightarrow> if r = [] then placeholder else r)"
  using assms by (simp add: settle_fulfilled or_else_def)

theorem send_success_appends_witness:
  "\<not> isLoading (typed ''Hello, how are you?'')
   \<and> trim (message (typed ''Hello, how are you?'')) \<noteq> []
   \<and> chatHistory (submit_and_settle (typed ''Hello, how are you?'')
        (Fulfilled (Some (reply ''I'm well.''))) 1000 1000)
      = [\<lparr> cm_id = lit ''1000'', cm_message = lit ''Hello, how are you?'',
           cm_response = lit ''I'm well.'', cm_timestamp = 1000 \<rparr>]
   \<and> currentResponse (submit_and_settle (typed ''Hello, how are you?'')
        (Fulfilled (Some (reply ''I'm well.''))) 1000 1000) = lit ''I'm well.''"
proof -
  have h1: "\<not> isLoading (typed ''Hello, how are you?'')"
    by (rule typed_idle)
  have h2: "trim (message (typed ''Hello, how are you?'')) \<noteq> []"
    by (simp add: typed_message trim_Hello lit_not_Nil)
  have r: "lit ''I'm well.'' \<noteq> []"
    by (simp add: lit_not_Nil)
  show ?thesis
    using send_success_appends[OF h1 h2, of "reply ''I'm well.''" 1000 1000] h1 h2 r
    by (simp add: typed_fresh typed_message trim_Hello reply_def Number_toString_1000)
qed

text \<open>
  Claim C9. When the request is fulfilled with a body whose reply field is present and is
  the empty string, the current response and the response of the appended entry are the
  placeholder text, which is not the empty string.
\<close>

theorem empty_reply_gives_placeholder:
  assumes "\<not> isLoading s" and "trim (message s) \<noteq> []" and "resp_response body = Some []"
  shows "currentResponse (submit_and_settle s (Fulfilled (Some body)) now_id now_ts) = placeholder
         \<and> cm_response (last (chatHistory (submit_and_settle s (Fulfilled (Some body)) now_id now_ts)))
             = placeholder
         \<and> placeholder \<noteq> []"
  using assms by (simp add: settle_fulfilled or_else_def placeholder_not_empty)

theorem empty_reply_gives_placeholder_witness:
  "\<not> isLoading (typed ''Hi'') \<and> trim (message (typed ''Hi'')) \<noteq> []
   \<and> resp_response (reply []) = Some []
   \<and> currentResponse (submit_and_settle (typed ''Hi'') (Fulfilled (Some (reply []))) 1000 1000)
       = lit ''Risposta non disponibile''
   \<and> map cm_response (chatHistory (submit_and_settle (typed ''Hi'') (Fulfilled (Some (reply []))) 1000 1000))
       = [lit ''Risposta non disponibile'']"
proof -
  have h1: "\<not> isLoading (typed ''Hi'')"
    by (rule typed_idle)
  have h2: "trim (message (typed ''Hi'')) \<noteq> []"
    by (simp add: typed_message trim_Hi lit_not_Nil)
  have h3: "resp_response (reply []) = Some []"
    by (simp add: reply_def lit_Nil)
  have "length (chatHistory (submit_and_settle (typed ''Hi'') (Fulfilled (Some (reply []))) 1000 1000)) = 1"
    using h1 h2 by (simp add: settle_fulfilled typed_fresh)
  then have "map cm_response (chatHistory (submit_and_settle (typed ''Hi'') (Fulfilled (Some (reply []))) 1000 1000))
      = [cm_response (last (chatHistory (submit_and_settle (typed ''Hi'') (Fulfilled (Some (reply []))) 1000 1000)))]"
    by (cases "chatHistory (submit_and_settle (typed ''Hi'') (Fulfilled (Some (reply []))) 1000 1000)") simp_all
  then show ?thesis
    using empty_reply_gives_placeholder[OF h1 h2 h3, of 1000 1000] h1 h2 h3
    by (simp add: placeholder_def)
qed

section \<open>A failed send\<close>

text \<open>
  Claim C2. When the send button is pressed on a text that passes validation and the
  request fails, the current response is set to the user message of the error built from
  the failure, no entry is appended, and the history is what it was before the press, both
  while the request is in flight and after it has failed.
\<close>

theorem send_failure_keeps_history:
  assumes "\<not> isLoading s" and "trim (message s) \<noteq> []"
  shows "currentResponse (submit_and_settle s (Rejected f) now_id now_ts)
           = getUserMessage (toAPIError f)
         \<and> chatHistory (submit_and_settle s (Rejected f) now_id now_ts) = chatHistory s
         \<and> chatHistory (step s PressSend) = chatHistory s"
  using assms by (simp add: settle_rejected handleSend_valid)

theorem send_failure_keeps_history_witness:
  "\<not> isLoading (typed ''Test'') \<and> trim (message (typed ''Test'')) \<noteq> []
   \<and> currentResponse (submit_and_settle (typed ''Test'') (Rejected timed_out) 1000 1000)
       = lit ''Timeout della richiesta. Riprova.''
   \<and> chatHistory (submit_and_settle (typed ''Test'') (Rejected timed_out) 1000 1000) = []"
proof -
  have h1: "\<not> isLoading (typed ''Test'')"
    by (rule typed_idle)
  have h2: "trim (message (typed ''Test'')) \<noteq> []"
    by (simp add: typed_message trim_Test lit_not_Nil)
  show ?thesis
    using send_failure_keeps_history[OF h1 h2, of timed_out 1000 1000] h1 h2
    by (simp add: typed_fresh timed_out_message)
qed

text \<open>
  Claim C10. A press on a text that passes validation clears the input at once, while the
  request it posted is still in flight; the input cannot be changed while the flag is up,
  and after the request has failed the input is still empty: the text is not put back.
\<close>

theorem input_cleared_at_submit:
  assumes "\<not> isLoading s" and "trim (message s) \<noteq> []"
  shows "message (step s PressSend) = []
         \<and> inFlight (step s PressSend) = inFlight s @ [trim (message s)]
         \<and> message (step (step s PressSend) (ChangeText t)) = []
         \<and> message (submit_and_settle s (Rejected f) now_id now_ts) = []"
  using assms by (simp add: settle_rejected handleSend_valid)

theorem input_cleared_at_submit_witness:
  "\<not> isLoading (typed ''Test'') \<and> trim (message (typed ''Test'')) \<noteq> []
   \<and> message (typed ''Test'') = lit ''Test''
   \<and> message (step (typed ''Test'') PressSend) = []
   \<and> inFlight (step (typed ''Test'') PressSend) = [lit ''Test'']
   \<and> message (submit_and_settle (typed ''Test'') (Rejected timed_out) 1000 1000) = []"
proof -
  have h1: "\<not> isLoading (typed ''Test'')"
    by (rule typed_idle)
  have h2: "trim (message (typed ''Test'')) \<noteq> []"
    by (simp add: typed_message trim_Test lit_not_Nil)
  show ?thesis
    using input_cleared_at_submit[OF h1 h2, of "[]" timed_out 1000 1000] h1 h2
    by (simp add: typed_fresh typed_message trim_Test)
qed

text \<open>
  Claim C5 as it is worded fails on every failure: on a timeout \<open>sendMessage\<close> does not
  return, it throws.
\<close>

theorem sendMessage_timeout_throws:
  "sendMessage (lit ''Test'') (Rejected timed_out) =
     Throws (ThrownAPIError
       \<lparr> err_message = lit ''timeout of 30000ms exceeded'', statusCode = 0,
         code = Some (lit ''ECONNABORTED'') \<rparr>)"
  by (simp add: sendMessage_def toAPIError_def timed_out_def or_else_def lit_def)

text \<open>
  Claim C5, amended. On every failure \<open>sendMessage\<close> throws an \<open>APIError\<close> and never
  returns a value. For an axios error the \<open>APIError\<close> carries the error's message, or
  \<^verbatim>\<open>'Network error'\<close> when that is empty, the status code of the response, or \<open>0\<close>
  when there is no response, and the error's transport code; for any other thrown value it
  carries \<^verbatim>\<open>'Unknown error occurred'\<close>, status \<open>0\<close> and no code. Whatever
  \<open>sendMessage\<close> throws is handled by the \<^verbatim>\<open>catch\<close> block of \<open>handleSend\<close>: the
  error is logged, its user message becomes the current response and is shown in a notice,
  and the loading flag goes down.
\<close>

theorem sendMessage_failure_thrown_and_caught:
  "sendMessage m (Rejected (AxiosError msg st c)) =
     Throws (ThrownAPIError
       \<lparr> err_message = (if msg = [] then lit ''Network error'' else msg),
         statusCode = (case st of None \<Rightarrow> 0 | Some n \<Rightarrow> n),
         code = c \<rparr>)
   \<and> sendMessage m (Rejected OtherError) =
     Throws (ThrownAPIError
       \<lparr> err_message = lit ''Unknown error occurred'', statusCode = 0, code = None \<rparr>)
   \<and> sendMessage m (Rejected f) \<noteq> Returns r
   \<and> (sendMessage m out = Throws e \<longrightarrow>
        handleSend_resume m out now_id now_ts s =
          s\<lparr> consoleErrors := consoleErrors s @ [e],
             currentResponse := (case e of ThrownAPIError a \<Rightarrow> getUserMessage a
                                 | TypeError \<Rightarrow> lit ''Errore nel contatto con TAUROS.''),
             alerts := alerts s @ [(lit ''Errore'',
                         (case e of ThrownAPIError a \<Rightarrow> getUserMessage a
                          | TypeError \<Rightarrow> lit ''Errore nel contatto con TAUROS.''))],
             isLoading := False \<rparr>)"
proof -
  have a: "sendMessage m (Rejected (AxiosError msg st c)) =
     Throws (ThrownAPIError
       \<lparr> err_message = (if msg = [] then lit ''Network error'' else msg),
         statusCode = (case st of None \<Rightarrow> 0 | Some n \<Rightarrow> n),
         code = c \<rparr>)"
    by (cases st) (simp_all add: sendMessage_def toAPIError_def or_else_def)
  have b: "sendMessage m (Rejected OtherError) =
     Throws (ThrownAPIError
       \<lparr> err_message = lit ''Unknown error occurred'', statusCode = 0, code = None \<rparr>)"
    by (simp add: sendMessage_def toAPIError_def)
  have c: "sendMessage m (Rejected f) \<noteq> Returns r"
    by (simp add: sendMessage_def)
  have d: "sendMessage m out = Throws e \<longrightarrow>
        handleSend_resume m out now_id now_ts s =
          s\<lparr> consoleErrors := consoleErrors s @ [e],
             currentResponse := (case e of ThrownAPIError a \<Rightarrow> getUserMessage a
                                 | TypeError \<Rightarrow> lit ''Errore nel contatto con TAUROS.''),
             alerts := alerts s @ [(lit ''Errore'',
                         (case e of ThrownAPIError a \<Rightarrow> getUserMessage a
                          | TypeError \<Rightarrow> lit ''Errore nel contatto con TAUROS.''))],
             isLoading := False \<rparr>"
    by (simp add: handleSend_resume_def handleSend_catch_def Let_def)
  from a b c d show ?thesis by blast
qed

theorem sendMessage_failure_thrown_and_caught_witness:
  "sendMessage (lit ''Test'') (Rejected timed_out) =
     Throws (ThrownAPIError
       \<lparr> err_message = lit ''timeout of 30000ms exceeded'', statusCode = 0,
         code = Some (lit ''ECONNABORTED'') \<rparr>)
   \<and> sendMessage (lit ''Test'')
        (Rejected (AxiosError [] (Some 503) (Some (lit ''ERR_BAD_RESPONSE'')))) =
     Throws (ThrownAPIError
       \<lparr> err_message = lit ''Network error'', statusCode = 503,
         code = Some (lit ''ERR_BAD_RESPONSE'') \<rparr>)
   \<and> currentResponse (handleSend_resume (lit ''Test'') (Rejected timed_out) 1000 1000 initial)
       = lit ''Timeout della richiesta. Riprova.''
   \<and> \<not> isLoading (handleSend_resume (lit ''Test'') (Rejected timed_out) 1000 1000 initial)
   \<and> chatHistory (handleSend_resume (lit ''Test'') (Rejected timed_out) 1000 1000 initial) = []"
proof -
  have t: "sendMessage (lit ''Test'') (Rejected timed_out) =
     Throws (ThrownAPIError
       \<lparr> err_message = lit ''timeout of 30000ms exceeded'', statusCode = 0,
         code = Some (lit ''ECONNABORTED'') \<rparr>)"
    using sendMessage_failure_thrown_and_caught[of "lit ''Test''" "lit ''timeout of 30000ms exceeded''" None
        "Some (lit ''ECONNABORTED'')"]
    by (simp add: timed_out_def lit_def)
  have u: "sendMessage (lit ''Test'')
        (Rejected (AxiosError [] (Some 503) (Some (lit ''ERR_BAD_RESPONSE'')))) =
     Throws (ThrownAPIError
       \<lparr> err_message = lit ''Network error'', statusCode = 503,
         code = Some (lit ''ERR_BAD_RESPONSE'') \<rparr>)"
    using sendMessage_failure_thrown_and_caught[of "lit ''Test''" "[]" "Some 503" "Some (lit ''ERR_BAD_RESPONSE'')"]
    by simp
  have g: "getUserMessage \<lparr> err_message = lit ''timeout of 30000ms exceeded'', statusCode = 0,
         code = Some (lit ''ECONNABORTED'') \<rparr> = lit ''Timeout della richiesta. Riprova.''"
    by (simp add: getUserMessage_def isTimeoutError_def)
  have "handleSend_resume (lit ''Test'') (Rejected timed_out) 1000 1000 initial =
      initial\<lparr> consoleErrors := consoleErrors initial @ [ThrownAPIError
            \<lparr> err_message = lit ''timeout of 30000ms exceeded'', statusCode = 0,
              code = Some (lit ''ECONNABORTED'') \<rparr>],
          currentResponse := lit ''Timeout della richiesta. Riprova.'',
          alerts := alerts initial @ [(lit ''Errore'', lit ''Timeout della richiesta. Riprova.'')],
          isLoading := False \<rparr>"
    using sendMessage_failure_thrown_and_caught[of "lit ''Test''" _ _ _ _ _ "Rejected timed_out" "ThrownAPIError
            \<lparr> err_message = lit ''timeout of 30000ms exceeded'', statusCode = 0,
              code = Some (lit ''ECONNABORTED'') \<rparr>" 1000 1000 initial] t g
    by simp
  then show ?thesis
    using t u by (simp add: initial_def)
qed

section \<open>Rejected submissions\<close>

text \<open>
  Claim C4. When the input is empty or holds nothing but whitespace, \<open>handleSend\<close> only
  raises the validation notice: pressing send posts no request, leaves the loading flag as
  it was and leaves the history and the current response unchanged.
\<close>

theorem blank_submit_rejected:
  assumes "\<forall>c\<in>set (message s). isWhiteSpace c"
  shows "handleSend s = s\<lparr> alerts := alerts s @ [validation_notice] \<rparr>
         \<and> inFlight (step s PressSend) = inFlight s
         \<and> isLoading (step s PressSend) = isLoading s
         \<and> chatHistory (step s PressSend) = chatHistory s
         \<and> currentResponse (step s PressSend) = currentResponse s"
  using trim_whitespace[OF assms] by (simp add: handleSend_def)

theorem blank_submit_rejected_witness:
  "list_all isWhiteSpace (message (typed ''   ''))
   \<and> handleSend (typed ''   '') = (typed ''   '')\<lparr> alerts := [validation_notice] \<rparr>
   \<and> inFlight (step (typed ''   '') PressSend) = []
   \<and> \<not> isLoading (step (typed ''   '') PressSend)
   \<and> chatHistory (step (typed ''   '') PressSend) = []"
proof -
  have h: "\<forall>c\<in>set (message (typed ''   '')). isWhiteSpace c"
    by (simp add: typed_message lit_def isWhiteSpace_def)
  show ?thesis
    using blank_submit_rejected[OF h] h by (simp add: typed_fresh typed_idle list_all_iff)
qed

text \<open>
  Claim C7. While the loading flag is up a press of the send button changes nothing at
  all: not the history, not the current response, not the flag, and nothing is queued. In
  every state the screen can reach from its initial state, at most one request is in
  flight, and one is in flight exactly when the flag is up. The handler itself has no guard
  of its own, yet in a reachable state with the flag up the input is empty, so even a call
  of \<open>handleSend\<close> there would only raise the validation notice and post nothing.
\<close>

theorem one_send_in_flight:
  "(isLoading s \<longrightarrow> step s PressSend = s)
   \<and> length (inFlight (run initial es)) \<le> 1
   \<and> (isLoading (run initial es) \<longleftrightarrow> inFlight (run initial es) \<noteq> [])
   \<and> (isLoading (run initial es) \<longrightarrow>
        handleSend (run initial es)
          = (run initial es)\<lparr> alerts := alerts (run initial es) @ [validation_notice] \<rparr>)"
  using invariant_run[OF invariant_initial, of es]
    handleSend_while_loading[OF invariant_run[OF invariant_initial, of es]]
  by (simp add: invariant_def)

theorem one_send_in_flight_witness:
  "isLoading (run initial [ChangeText (lit ''a''), PressSend])
   \<and> step (run initial [ChangeText (lit ''a''), PressSend]) PressSend
       = run initial [ChangeText (lit ''a''), PressSend]
   \<and> inFlight (run initial [ChangeText (lit ''a''), PressSend, PressSend]) = [lit ''a'']
   \<and> inFlight (handleSend (run initial [ChangeText (lit ''a''), PressSend])) = [lit ''a'']"
proof -
  have l: "isLoading (run initial [ChangeText (lit ''a''), PressSend])"
    by (simp add: run_def initial_def handleSend_def trim_a lit_not_Nil)
  have f: "inFlight (run initial [ChangeText (lit ''a''), PressSend]) = [lit ''a'']"
    by (simp add: run_def initial_def handleSend_def trim_a lit_not_Nil)
  have r: "run initial [ChangeText (lit ''a''), PressSend, PressSend]
             = step (run initial [ChangeText (lit ''a''), PressSend]) PressSend"
    by (simp add: run_def)
  have "step (run initial [ChangeText (lit ''a''), PressSend]) PressSend
          = run initial [ChangeText (lit ''a''), PressSend]"
      and "handleSend (run initial [ChangeText (lit ''a''), PressSend])
          = (run initial [ChangeText (lit ''a''), PressSend])
              \<lparr> alerts := alerts (run initial [ChangeText (lit ''a''), PressSend])
                            @ [validation_notice] \<rparr>"
    using one_send_in_flight[of "run initial [ChangeText (lit ''a''), PressSend]"
        "[ChangeText (lit ''a''), PressSend]"] l
    by simp_all
  then show ?thesis
    using l f unfolding r by simp
qed

section \<open>The history over many sends\<close>

text \<open>
  Claim C6 as it is worded fails when the clock steps back between two sends: the first
  entry then carries the later timestamp.
\<close>

theorem clock_step_back_counterexample:
  "length (chatHistory (successful_sends initial (two_sends 2000 2000 1000 1000))) = 2
   \<and> cm_timestamp (chatHistory (successful_sends initial (two_sends 2000 2000 1000 1000)) ! 0)
     > cm_timestamp (chatHistory (successful_sends initial (two_sends 2000 2000 1000 1000)) ! 1)"
  by (simp add: two_sends_history)

text \<open>
  Claim C6, amended. After any sequence of \<open>N\<close> successful sends from the initial screen
  the history has exactly \<open>N\<close> entries, in submission order; the timestamp of each entry
  is the clock reading taken when its reply was handled, so the timestamps are in
  non-decreasing order exactly when those readings are; and no event mutates, reorders or
  removes an entry: the history before a step is a prefix of the history after it.
\<close>

theorem history_of_sends_in_order:
  assumes "\<forall>x\<in>set xs. trim (send_text x) \<noteq> []"
  shows "length (chatHistory (successful_sends initial xs)) = length xs
         \<and> map cm_message (chatHistory (successful_sends initial xs)) = map (trim \<circ> send_text) xs
         \<and> map cm_timestamp (chatHistory (successful_sends initial xs)) = map send_now_ts xs
         \<and> (sorted (map cm_timestamp (chatHistory (successful_sends initial xs)))
              \<longleftrightarrow> sorted (map send_now_ts xs))
         \<and> prefix (chatHistory s) (chatHistory (step s e))"
  by (simp add: history_from_initial[OF assms] cm_timestamp_exchange cm_message_exchange
      prefix_history_step comp_def)

theorem history_of_sends_in_order_witness:
  "list_all (\<lambda>x. trim (send_text x) \<noteq> []) (two_sends 1000 1000 2000 2000)
   \<and> length (chatHistory (successful_sends initial (two_sends 1000 1000 2000 2000))) = 2
   \<and> map cm_message (chatHistory (successful_sends initial (two_sends 1000 1000 2000 2000)))
       = [lit ''a'', lit ''b'']
   \<and> map cm_timestamp (chatHistory (successful_sends initial (two_sends 1000 1000 2000 2000)))
       = [1000, 2000]
   \<and> sorted (map cm_timestamp (chatHistory (successful_sends initial (two_sends 1000 1000 2000 2000))))"
proof -
  have h: "\<forall>x\<in>set (two_sends 1000 1000 2000 2000). trim (send_text x) \<noteq> []"
    by (rule two_sends_valid)
  show ?thesis
    using history_of_sends_in_order[OF h] h
    by (simp add: two_sends_def trim_a trim_b list_all_iff)
qed

text \<open>
  Claim C8 as it is worded fails when two replies are handled at the same clock reading:
  the two entries differ and carry the same id.
\<close>

theorem same_millisecond_counterexample:
  "chatHistory (successful_sends initial (two_sends 1000 1000 1000 1001)) ! 0
     \<noteq> chatHistory (successful_sends initial (two_sends 1000 1000 1000 1001)) ! 1
   \<and> cm_id (chatHistory (successful_sends initial (two_sends 1000 1000 1000 1001)) ! 0)
     = cm_id (chatHistory (successful_sends initial (two_sends 1000 1000 1000 1001)) ! 1)"
  by (simp add: two_sends_history)

text \<open>
  Claim C8, amended. Every entry is given, at creation, the decimal rendering of the clock
  reading taken at that moment as its id; after any sequence of successful sends the ids in
  the history are pairwise different exactly when those clock readings are.
\<close>

theorem ids_follow_the_clock:
  assumes "\<forall>x\<in>set xs. trim (send_text x) \<noteq> []"
  shows "map cm_id (chatHistory (successful_sends initial xs))
           = map (Number_toString \<circ> send_now_id) xs
         \<and> (distinct (map cm_id (chatHistory (successful_sends initial xs)))
              \<longleftrightarrow> distinct (map send_now_id xs))"
proof -
  have ids: "map cm_id (chatHistory (successful_sends initial xs))
               = map Number_toString (map send_now_id xs)"
    by (simp add: history_from_initial[OF assms] cm_id_exchange comp_def)
  have "inj_on Number_toString (set (map send_now_id xs))"
    by (rule inj_onI) (simp add: Number_toString_inj)
  then have "distinct (map Number_toString (map send_now_id xs))
               \<longleftrightarrow> distinct (map send_now_id xs)"
    by (simp only: distinct_map) simp
  with ids show ?thesis by simp
qed

theorem ids_follow_the_clock_witness:
  "list_all (\<lambda>x. trim (send_text x) \<noteq> []) (two_sends 1000 1000 2000 2000)
   \<and> map cm_id (chatHistory (successful_sends initial (two_sends 1000 1000 2000 2000)))
       = [Number_toString 1000, Number_toString 2000]
   \<and> distinct (map cm_id (chatHistory (successful_sends initial (two_sends 1000 1000 2000 2000))))"
proof -
  have h: "\<forall>x\<in>set (two_sends 1000 1000 2000 2000). trim (send_text x) \<noteq> []"
    by (rule two_sends_valid)
  show ?thesis
    using ids_follow_the_clock[OF h] h
    by (simp add: two_sends_def Number_toString_inj list_all_iff)
qed

end
